theory Spec2Isabelle
  imports Main
begin

section \<open>The scroll service of the elastic client (scroll.go)\<close>

text \<open>
  The theory embeds \<^verbatim>\<open>src/scroll.go\<close>: the builder \<^verbatim>\<open>ScrollService\<close>, its setters,
  and the three operations \<^verbatim>\<open>Do\<close>, \<^verbatim>\<open>GetFirstPage\<close> and \<^verbatim>\<open>GetNextPage\<close>.

  Go strings are byte strings, as \<^typ>\<open>string\<close> is. A nil slice and an empty slice behave
  alike in every statement of the file (\<^verbatim>\<open>range\<close>, \<^verbatim>\<open>len\<close>, \<^verbatim>\<open>append\<close>), so both are the
  empty list. A pointer or interface that may be nil is an \<^typ>\<open>'a option\<close>. The receiver's
  \<^verbatim>\<open>client\<close> is taken to be a usable (non-nil) client: what a nil client does is decided
  inside \<^verbatim>\<open>Client.NewRequest\<close>, which is not part of the file.
\<close>

subsection \<open>Errors\<close>

text \<open>
  \<^verbatim>\<open>ErrNoScrollId\<close> and \<^verbatim>\<open>EOS\<close> are two package-level error values declared outside
  \<^verbatim>\<open>scroll.go\<close>; the file only returns them. Every other error is made by a collaborator
  (request construction, transport, status check, JSON decoding) and is handed on as it is.
\<close>

datatype error =
    ErrNoScrollId
  | EOS
  | OtherError string

subsection \<open>The result envelope\<close>

text \<open>
  Modelled from the spec: the declarations of \<^verbatim>\<open>SearchResult\<close> and \<^verbatim>\<open>SearchHits\<close> are not in
  \<^verbatim>\<open>scroll.go\<close>. The spec describes the envelope as an object with a cursor-handle field and
  a hits container, the container holding a total-count field and an ordered sequence of
  matched-document records. \<^verbatim>\<open>scroll.go\<close> reads \<^verbatim>\<open>searchResult.Hits\<close> (compared with nil),
  \<^verbatim>\<open>searchResult.Hits.Hits\<close> (its \<^verbatim>\<open>len\<close>) and \<^verbatim>\<open>searchResult.Hits.TotalHits\<close> (compared
  with 0). The type \<^typ>\<open>'h\<close> is the type of one hit record. The cursor-handle field is
  named \<open>ScrollId_field\<close>, since \<open>ScrollId\<close> is the setter of the service below.
\<close>

record 'h SearchHits =
  TotalHits :: int
  Hits :: "'h list"

record 'h SearchResult =
  ScrollId_field :: string
  Hits :: "'h SearchHits option"

subsection \<open>Collaborators\<close>

text \<open>
  \<^verbatim>\<open>Query\<close> is an interface; \<^verbatim>\<open>scroll.go\<close> only calls its method \<^verbatim>\<open>Source()\<close>, whose result
  (of type \<^typ>\<open>'j\<close>, a JSON-compatible value) is put into the request body. A query
  object is identified with what its \<^verbatim>\<open>Source()\<close> returns; the nil interface is \<open>None\<close>.
\<close>

datatype 'j Query = QueryObject (Source: 'j)

text \<open>
  \<^verbatim>\<open>url.Values\<close> is a Go map from a key to a list of values. It is an association list with
  distinct keys here; \<^verbatim>\<open>Set\<close> replaces the values of a key by the single value given.
\<close>

type_synonym Values = "(string \<times> string list) list"

fun Values_Set :: "string \<Rightarrow> string \<Rightarrow> Values \<Rightarrow> Values" where
  "Values_Set key v [] = [(key, [v])]"
| "Values_Set key v ((k, vs) # m) =
     (if k = key then (key, [v]) # m else (k, vs) # Values_Set key v m)"

definition Values_Get :: "Values \<Rightarrow> string \<rightharpoonup> string list" where
  "Values_Get m = map_of m"

text \<open>
  The client: \<^verbatim>\<open>s.client.NewRequest(method, urls)\<close> builds a request or fails;
  \<^verbatim>\<open>s.client.c.Do(req)\<close> sends it, which changes the state \<^typ>\<open>'w\<close> of the transport and of
  the server behind it, and returns a response or fails.
\<close>

record ('req, 'res, 'w) Client =
  NewRequest :: "string \<Rightarrow> string \<Rightarrow> error + 'req"
  c_Do :: "'req \<Rightarrow> 'w \<Rightarrow> (error + 'res) \<times> 'w"

text \<open>
  What \<^verbatim>\<open>scroll.go\<close> uses of its package and of the standard library without defining it,
  taken as parameters: the path-cleaning function, the default keep-alive constant, the
  constructor of the match-all query, the status check of a response, the two body setters of
  a request (\<^verbatim>\<open>SetBodyJson\<close> returns an error that \<^verbatim>\<open>scroll.go\<close> drops, so only the request
  after the call counts), \<^verbatim>\<open>url.Values.Encode\<close> (the order in which it writes the keys is
  the library's business, and no statement below depends on it), and the JSON decoding of a
  response body into a fresh \<^verbatim>\<open>SearchResult\<close>.
\<close>

record ('req, 'res, 'j, 'h) Package =
  cleanPathString :: "string \<Rightarrow> string"
  defaultKeepAlive :: string
  NewMatchAllQuery :: "'j Query"
  checkResponse :: "'res \<Rightarrow> error option"
  SetBodyJson :: "'req \<Rightarrow> (string \<rightharpoonup> 'j) \<Rightarrow> 'req"
  SetBodyString :: "'req \<Rightarrow> string \<Rightarrow> 'req"
  Encode :: "Values \<Rightarrow> string"
  Decode :: "'res \<Rightarrow> error + 'h SearchResult"

subsection \<open>Effects\<close>

text \<open>
  Everything the two operations do besides returning is recorded, in order: the call of
  \<^verbatim>\<open>NewRequest\<close> with its two arguments, the request handed to \<^verbatim>\<open>Do\<close>, the debug dumps
  (\<^verbatim>\<open>fmt.Printf\<close> in \<^verbatim>\<open>GetFirstPage\<close>, \<^verbatim>\<open>log.Printf\<close> in \<^verbatim>\<open>GetNextPage\<close>) and the deferred
  \<^verbatim>\<open>res.Body.Close()\<close>.
\<close>

datatype ('req, 'res) dump = DumpRequestOut 'req | DumpResponse 'res

datatype ('req, 'res) event =
    NewRequest_call string string
  | Do_call 'req
  | fmt_Printf "('req, 'res) dump"
  | log_Printf "('req, 'res) dump"
  | Body_Close 'res

record ('req, 'res, 'w) world =
  remote :: 'w
  events :: "('req, 'res) event list"

definition emit :: "('req, 'res) event \<Rightarrow> ('req, 'res, 'w) world \<Rightarrow> ('req, 'res, 'w) world" where
  "emit e w = w\<lparr>events := events w @ [e]\<rparr>"

subsection \<open>The service and its setters\<close>

text \<open>
  The field \<^verbatim>\<open>size\<close> is a pointer to an \<^verbatim>\<open>int\<close>, nil until \<^verbatim>\<open>Size\<close> is called; it is
  \<open>size_ptr\<close> here. The file compares the integer with 0 and prints it, and computes nothing
  with it, so it is an \<^typ>\<open>int\<close> whatever the width of the machine's \<^verbatim>\<open>int\<close>.
\<close>

record ('req, 'res, 'w, 'j) ScrollService =
  client :: "('req, 'res, 'w) Client"
  indices :: "string list"
  types :: "string list"
  keepAlive :: string
  query :: "'j Query option"
  size_ptr :: "int option"
  pretty :: bool
  debug :: bool
  scrollId :: string

definition NewScrollService ::
  "('req, 'res, 'j, 'h) Package \<Rightarrow> ('req, 'res, 'w) Client \<Rightarrow> ('req, 'res, 'w, 'j) ScrollService" where
  "NewScrollService pkg c =
     \<lparr>client = c, indices = [], types = [], keepAlive = [],
      query = Some (NewMatchAllQuery pkg), size_ptr = None,
      pretty = False, debug = False, scrollId = []\<rparr>"

definition Index :: "string \<Rightarrow> ('req, 'res, 'w, 'j) ScrollService \<Rightarrow> ('req, 'res, 'w, 'j) ScrollService" where
  "Index index s = s\<lparr>indices := indices s @ [index]\<rparr>"

definition Indices :: "string list \<Rightarrow> ('req, 'res, 'w, 'j) ScrollService \<Rightarrow> ('req, 'res, 'w, 'j) ScrollService" where
  "Indices ixs s = s\<lparr>indices := indices s @ ixs\<rparr>"

definition Type :: "string \<Rightarrow> ('req, 'res, 'w, 'j) ScrollService \<Rightarrow> ('req, 'res, 'w, 'j) ScrollService" where
  "Type typ s = s\<lparr>types := types s @ [typ]\<rparr>"

definition Types :: "string list \<Rightarrow> ('req, 'res, 'w, 'j) ScrollService \<Rightarrow> ('req, 'res, 'w, 'j) ScrollService" where
  "Types tys s = s\<lparr>types := types s @ tys\<rparr>"

definition Scroll :: "string \<Rightarrow> ('req, 'res, 'w, 'j) ScrollService \<Rightarrow> ('req, 'res, 'w, 'j) ScrollService" where
  "Scroll ka s = s\<lparr>keepAlive := ka\<rparr>"

definition KeepAlive :: "string \<Rightarrow> ('req, 'res, 'w, 'j) ScrollService \<Rightarrow> ('req, 'res, 'w, 'j) ScrollService" where
  "KeepAlive ka s = s\<lparr>keepAlive := ka\<rparr>"

definition Query :: "'j Query option \<Rightarrow> ('req, 'res, 'w, 'j) ScrollService \<Rightarrow> ('req, 'res, 'w, 'j) ScrollService" where
  "Query q s = s\<lparr>query := q\<rparr>"

definition Pretty :: "bool \<Rightarrow> ('req, 'res, 'w, 'j) ScrollService \<Rightarrow> ('req, 'res, 'w, 'j) ScrollService" where
  "Pretty p s = s\<lparr>pretty := p\<rparr>"

definition Debug :: "bool \<Rightarrow> ('req, 'res, 'w, 'j) ScrollService \<Rightarrow> ('req, 'res, 'w, 'j) ScrollService" where
  "Debug d s = s\<lparr>debug := d\<rparr>"

definition Size :: "int \<Rightarrow> ('req, 'res, 'w, 'j) ScrollService \<Rightarrow> ('req, 'res, 'w, 'j) ScrollService" where
  "Size n s = s\<lparr>size_ptr := Some n\<rparr>"

definition ScrollId :: "string \<Rightarrow> ('req, 'res, 'w, 'j) ScrollService \<Rightarrow> ('req, 'res, 'w, 'j) ScrollService" where
  "ScrollId sid s = s\<lparr>scrollId := sid\<rparr>"

subsection \<open>Library functions the file calls\<close>

text \<open>\<^verbatim>\<open>strings.Join(elems, sep)\<close>.\<close>

fun Join :: "string list \<Rightarrow> string \<Rightarrow> string" where
  "Join [] sep = []"
| "Join [x] sep = x"
| "Join (x # y # ys) sep = x @ sep @ Join (y # ys) sep"

text \<open>\<^verbatim>\<open>fmt.Sprintf("%v", b)\<close> for a bool and \<^verbatim>\<open>fmt.Sprintf("%d", n)\<close> for an int.\<close>

definition Sprintf_v :: "bool \<Rightarrow> string" where
  "Sprintf_v b = (if b then ''true'' else ''false'')"

fun decimal :: "nat \<Rightarrow> string" where
  "decimal n =
     (if n < 10 then [''0123456789'' ! n]
      else decimal (n div 10) @ [''0123456789'' ! (n mod 10)])"

declare decimal.simps [simp del]

definition Sprintf_d :: "int \<Rightarrow> string" where
  "Sprintf_d n = (if n < 0 then CHR ''-'' # decimal (nat (- n)) else decimal (nat n))"

subsection \<open>GetFirstPage\<close>

text \<open>
  Lines 120 to 141: the path. The two \<^verbatim>\<open>range\<close> loops append the cleaned names one by one.
\<close>

definition firstPagePath :: "('req, 'res, 'j, 'h) Package \<Rightarrow> ('req, 'res, 'w, 'j) ScrollService \<Rightarrow> string" where
  "firstPagePath pkg s =
     (let urls = ''/'';
          indexPart = foldl (\<lambda>part index. part @ [cleanPathString pkg index]) [] (indices s);
          urls = (if length indexPart > 0 then urls @ Join indexPart '','' else urls);
          typesPart = foldl (\<lambda>part typ. part @ [cleanPathString pkg typ]) [] (types s);
          urls = (if length typesPart > 0 then urls @ ''/'' @ Join typesPart '','' else urls)
      in urls @ ''/_search'')"

text \<open>Lines 144 to 156: the query parameters.\<close>

definition firstPageParams :: "('req, 'res, 'j, 'h) Package \<Rightarrow> ('req, 'res, 'w, 'j) ScrollService \<Rightarrow> Values" where
  "firstPageParams pkg s =
     (let params = [];
          params = Values_Set ''search_type'' ''scan'' params;
          params = (if pretty s then Values_Set ''pretty'' (Sprintf_v (pretty s)) params else params);
          params = (if keepAlive s \<noteq> [] then Values_Set ''scroll'' (keepAlive s) params
                    else Values_Set ''scroll'' (defaultKeepAlive pkg) params);
          params = (case size_ptr s of
                      None \<Rightarrow> params
                    | Some n \<Rightarrow> if n > 0 then Values_Set ''size'' (Sprintf_d n) params else params)
      in params)"

text \<open>Lines 157 to 159: the string passed to \<^verbatim>\<open>NewRequest\<close>.\<close>

definition firstPageUrls :: "('req, 'res, 'j, 'h) Package \<Rightarrow> ('req, 'res, 'w, 'j) ScrollService \<Rightarrow> string" where
  "firstPageUrls pkg s =
     (let urls = firstPagePath pkg s;
          params = firstPageParams pkg s
      in if length params > 0 then urls @ ''?'' @ Encode pkg params else urls)"

text \<open>Lines 168 to 173: the body, a map with at most the key \<^verbatim>\<open>query\<close>.\<close>

definition firstPageBody :: "('req, 'res, 'w, 'j) ScrollService \<Rightarrow> (string \<rightharpoonup> 'j)" where
  "firstPageBody s =
     (let body = Map.empty
      in case query s of None \<Rightarrow> body | Some q \<Rightarrow> body(''query'' \<mapsto> Source q))"

text \<open>Lines 161 to 202: the exchange. Each \<^verbatim>\<open>return nil, err\<close> is an \<open>Inl\<close> branch.\<close>

definition GetFirstPage ::
  "('req, 'res, 'j, 'h) Package \<Rightarrow> ('req, 'res, 'w, 'j) ScrollService \<Rightarrow> ('req, 'res, 'w) world
     \<Rightarrow> (error + 'h SearchResult) \<times> ('req, 'res, 'w) world" where
  "GetFirstPage pkg s w0 =
     (let urls = firstPageUrls pkg s;
          w1 = emit (NewRequest_call ''POST'' urls) w0
      in case NewRequest (client s) ''POST'' urls of
           Inl err \<Rightarrow> (Inl err, w1)
         | Inr req0 \<Rightarrow>
             (let req = SetBodyJson pkg req0 (firstPageBody s);
                  w2 = (if debug s then emit (fmt_Printf (DumpRequestOut req)) w1 else w1);
                  (r, net) = c_Do (client s) req (remote w2);
                  w3 = (emit (Do_call req) w2)\<lparr>remote := net\<rparr>
              in case r of
                   Inl err \<Rightarrow> (Inl err, w3)
                 | Inr res \<Rightarrow>
                     (case checkResponse pkg res of
                        Some err \<Rightarrow> (Inl err, w3)
                      | None \<Rightarrow>
                          (let w4 = (if debug s then emit (fmt_Printf (DumpResponse res)) w3 else w3)
                           in case Decode pkg res of
                                Inl err \<Rightarrow> (Inl err, emit (Body_Close res) w4)
                              | Inr searchResult \<Rightarrow> (Inr searchResult, emit (Body_Close res) w4)))))"

subsection \<open>GetNextPage\<close>

text \<open>Lines 213 to 222: the query parameters of the continuation request.\<close>

definition nextPageParams :: "('req, 'res, 'j, 'h) Package \<Rightarrow> ('req, 'res, 'w, 'j) ScrollService \<Rightarrow> Values" where
  "nextPageParams pkg s =
     (let params = [];
          params = (if pretty s then Values_Set ''pretty'' (Sprintf_v (pretty s)) params else params);
          params = (if keepAlive s \<noteq> [] then Values_Set ''scroll'' (keepAlive s) params
                    else Values_Set ''scroll'' (defaultKeepAlive pkg) params)
      in params)"

text \<open>Lines 211 and 223.\<close>

definition nextPageUrls :: "('req, 'res, 'j, 'h) Package \<Rightarrow> ('req, 'res, 'w, 'j) ScrollService \<Rightarrow> string" where
  "nextPageUrls pkg s = ''/_search/scroll'' @ ''?'' @ Encode pkg (nextPageParams pkg s)"

text \<open>
  Line 260, the test for the last page. \<^verbatim>\<open>searchResult\<close> is a pointer, compared with nil
  first; the disjunction is evaluated from left to right.
\<close>

definition lastPage :: "'h SearchResult option \<Rightarrow> bool" where
  "lastPage searchResult =
     (case searchResult of
        None \<Rightarrow> True
      | Some r \<Rightarrow>
          (case SearchResult.Hits r of
             None \<Rightarrow> True
           | Some hs \<Rightarrow> length (SearchHits.Hits hs) = 0 \<or> TotalHits hs = 0))"

text \<open>Lines 205 to 264.\<close>

definition GetNextPage ::
  "('req, 'res, 'j, 'h) Package \<Rightarrow> ('req, 'res, 'w, 'j) ScrollService \<Rightarrow> ('req, 'res, 'w) world
     \<Rightarrow> (error + 'h SearchResult) \<times> ('req, 'res, 'w) world" where
  "GetNextPage pkg s w0 =
     (if scrollId s = [] then (Inl ErrNoScrollId, w0)
      else
        (let urls = nextPageUrls pkg s;
             w1 = emit (NewRequest_call ''POST'' urls) w0
         in case NewRequest (client s) ''POST'' urls of
              Inl err \<Rightarrow> (Inl err, w1)
            | Inr req0 \<Rightarrow>
                (let req = SetBodyString pkg req0 (scrollId s);
                     w2 = (if debug s then emit (log_Printf (DumpRequestOut req)) w1 else w1);
                     (r, net) = c_Do (client s) req (remote w2);
                     w3 = (emit (Do_call req) w2)\<lparr>remote := net\<rparr>
                 in case r of
                      Inl err \<Rightarrow> (Inl err, w3)
                    | Inr res \<Rightarrow>
                        (case checkResponse pkg res of
                           Some err \<Rightarrow> (Inl err, w3)
                         | None \<Rightarrow>
                             (let w4 = (if debug s then emit (log_Printf (DumpResponse res)) w3 else w3)
                              in case Decode pkg res of
                                   Inl err \<Rightarrow> (Inl err, emit (Body_Close res) w4)
                                 | Inr searchResult \<Rightarrow>
                                     if lastPage (Some searchResult)
                                     then (Inl EOS, emit (Body_Close res) w4)
                                     else (Inr searchResult, emit (Body_Close res) w4))))))"

subsection \<open>Do\<close>

definition Do ::
  "('req, 'res, 'j, 'h) Package \<Rightarrow> ('req, 'res, 'w, 'j) ScrollService \<Rightarrow> ('req, 'res, 'w) world
     \<Rightarrow> (error + 'h SearchResult) \<times> ('req, 'res, 'w) world" where
  "Do pkg s w =
     (if scrollId s = [] then GetFirstPage pkg s w
      else GetNextPage pkg s w)"

subsection \<open>Reading the record of effects\<close>

text \<open>
  Two projections of the record, used to state what an operation requested and what it sent:
  the arguments of the calls of \<^verbatim>\<open>NewRequest\<close>, and the requests handed to \<^verbatim>\<open>Do\<close>, each in
  the order of the calls.
\<close>

fun requested :: "('req, 'res) event list \<Rightarrow> (string \<times> string) list" where
  "requested [] = []"
| "requested (NewRequest_call m u # es) = (m, u) # requested es"
| "requested (e # es) = requested es"

fun sent :: "('req, 'res) event list \<Rightarrow> 'req list" where
  "sent [] = []"
| "sent (Do_call req # es) = req # sent es"
| "sent (e # es) = sent es"

subsection \<open>Reading a decimal numeral\<close>

text \<open>
  The number that a non-empty string of decimal digits denotes; any other string denotes none.
  It is not part of \<^verbatim>\<open>scroll.go\<close>; it serves to say that \<^verbatim>\<open>fmt.Sprintf("%d", n)\<close> prints the
  value of \<open>n\<close>.
\<close>

definition is_digit :: "char \<Rightarrow> bool" where
  "is_digit c = (48 \<le> (of_char c :: nat) \<and> (of_char c :: nat) \<le> 57)"

definition read_decimal :: "string \<Rightarrow> nat option" where
  "read_decimal cs =
     (if cs \<noteq> [] \<and> list_all is_digit cs
      then Some (foldl (\<lambda>a c. 10 * a + (of_char c - 48)) 0 cs)
      else None)"

subsection \<open>An example environment\<close>

text \<open>
  A small client and package at which the theorems below are instantiated: requests are
  records of method, URL and body; the transport answers every request with one fixed
  envelope and counts the requests it has served; every status is accepted and the response
  is its own decoding; path cleaning removes slashes; the encoding of the parameters writes
  \<open>key=value\<close> pairs in the order of the list, joined by \<open>&\<close>.
\<close>

datatype example_body = NoBody | JsonBody "string \<rightharpoonup> string" | StringBody string

record example_request =
  req_method :: string
  req_url :: string
  req_body :: example_body

definition example_Encode :: "Values \<Rightarrow> string" where
  "example_Encode m = Join (concat (map (\<lambda>(k, vs). map (\<lambda>v. k @ ''='' @ v) vs) m)) ''&''"

definition example_client :: "string SearchResult \<Rightarrow> (example_request, string SearchResult, nat) Client" where
  "example_client reply =
     \<lparr>NewRequest = (\<lambda>m u. Inr \<lparr>req_method = m, req_url = u, req_body = NoBody\<rparr>),
      c_Do = (\<lambda>req n. (Inr reply, Suc n))\<rparr>"

definition example_package :: "(example_request, string SearchResult, string, string) Package" where
  "example_package =
     \<lparr>cleanPathString = filter (\<lambda>c. c \<noteq> CHR ''/''),
      defaultKeepAlive = ''5m'',
      NewMatchAllQuery = QueryObject ''match_all'',
      checkResponse = (\<lambda>res. None),
      SetBodyJson = (\<lambda>req b. req\<lparr>req_body := JsonBody b\<rparr>),
      SetBodyString = (\<lambda>req b. req\<lparr>req_body := StringBody b\<rparr>),
      Encode = example_Encode,
      Decode = Inr\<rparr>"

text \<open>The service of the spec's scenario: collection \<open>logs\<close>, keep-alive \<open>1m\<close>, page size 50.\<close>

definition example_service ::
  "string SearchResult \<Rightarrow> (example_request, string SearchResult, nat, string) ScrollService" where
  "example_service reply =
     Size 50 (KeepAlive ''1m'' (Index ''logs'' (NewScrollService example_package (example_client reply))))"

definition example_world :: "(example_request, string SearchResult, nat) world" where
  "example_world = \<lparr>remote = 0, events = []\<rparr>"

definition page_of_three :: "string SearchResult" where
  "page_of_three =
     \<lparr>ScrollId_field = ''abc'', Hits = Some \<lparr>TotalHits = 3, Hits = [''d1'', ''d2'', ''d3'']\<rparr>\<rparr>"

definition page_of_none :: "string SearchResult" where
  "page_of_none = \<lparr>ScrollId_field = ''abc'', Hits = Some \<lparr>TotalHits = 0, Hits = []\<rparr>\<rparr>"

definition page_total_zero :: "string SearchResult" where
  "page_total_zero = \<lparr>ScrollId_field = ''abc'', Hits = Some \<lparr>TotalHits = 0, Hits = [''d1'']\<rparr>\<rparr>"

section \<open>Auxiliary facts\<close>

lemmas example_defs = example_client_def example_package_def example_service_def example_world_def
  page_of_three_def page_of_none_def page_total_zero_def example_Encode_def
  NewScrollService_def Index_def Indices_def Type_def Types_def KeepAlive_def Scroll_def Size_def
  ScrollId_def Query_def Pretty_def Debug_def

subsection \<open>Loops, joins and parameter maps\<close>

lemma foldl_append_map: "foldl (\<lambda>part x. part @ [f x]) acc xs = acc @ map f xs"
  by (induction xs arbitrary: acc) simp_all

lemma map_of_Values_Set: "map_of (Values_Set k v m) = (map_of m)(k \<mapsto> [v])"
  by (induction m) (auto simp: fun_eq_iff)

lemma Values_Set_nonempty: "Values_Set k v m \<noteq> []"
  by (cases m) (auto split: if_splits)

lemma firstPageParams_nonempty: "firstPageParams pkg s \<noteq> []"
  by (simp add: firstPageParams_def Values_Set_nonempty Let_def split: option.split)

lemma firstPageUrls_eq:
  "firstPageUrls pkg s = firstPagePath pkg s @ ''?'' @ Encode pkg (firstPageParams pkg s)"
  by (simp add: firstPageUrls_def firstPageParams_nonempty)

lemma firstPagePath_eq:
  "firstPagePath pkg s =
     ''/'' @ (if indices s = [] then [] else Join (map (cleanPathString pkg) (indices s)) '','') @
     (if types s = [] then [] else ''/'' @ Join (map (cleanPathString pkg) (types s)) '','') @
     ''/_search''"
  by (simp add: firstPagePath_def foldl_append_map)

lemma nextPageUrls_eq:
  "nextPageUrls pkg s = ''/_search/scroll?'' @ Encode pkg (nextPageParams pkg s)"
  by (simp add: nextPageUrls_def)

lemma Join_avoids:
  assumes "\<And>x. x \<in> set xs \<Longrightarrow> set x \<inter> B = {}" and "set sep \<inter> B = {}"
  shows "set (Join xs sep) \<inter> B = {}"
  using assms by (induction xs sep rule: Join.induct) auto

subsection \<open>The setters append\<close>

lemma indices_fold_Index: "indices (fold Index ixs s) = indices s @ ixs"
  by (induction ixs arbitrary: s) (simp_all add: Index_def)

lemma types_fold_Index: "types (fold Index ixs s) = types s"
  by (induction ixs arbitrary: s) (simp_all add: Index_def)

lemma types_fold_Type: "types (fold Type tys s) = types s @ tys"
  by (induction tys arbitrary: s) (simp_all add: Type_def)

lemma indices_fold_Type: "indices (fold Type tys s) = indices s"
  by (induction tys arbitrary: s) (simp_all add: Type_def)

subsection \<open>Printing an integer\<close>

lemma digit_char:
  "n < 10 \<Longrightarrow> is_digit (''0123456789'' ! n) \<and> of_char (''0123456789'' ! n) - 48 = (n::nat)"
proof -
  assume "n < 10"
  then have "n \<in> {0, 1, 2, 3, 4, 5, 6, 7, 8, 9}" by auto
  then show ?thesis by (auto simp: is_digit_def)
qed

lemma decimal_digits: "decimal n \<noteq> [] \<and> list_all is_digit (decimal n)"
proof (induction n rule: decimal.induct)
  case (1 n)
  show ?case
  proof (cases "n < 10")
    case True
    then show ?thesis
      by (subst (1 2) decimal.simps) (simp add: digit_char)
  next
    case False
    with 1 have "list_all is_digit (decimal (n div 10))" by simp
    with False show ?thesis
      by (subst (1 2) decimal.simps) (simp add: digit_char)
  qed
qed

lemma decimal_foldl: "foldl (\<lambda>a c. 10 * a + (of_char c - 48)) 0 (decimal n) = n"
proof (induction n rule: decimal.induct)
  case (1 n)
  show ?case
  proof (cases "n < 10")
    case True
    then show ?thesis
      by (subst decimal.simps) (simp add: digit_char)
  next
    case False
    with 1 have "foldl (\<lambda>a c. 10 * a + (of_char c - 48)) 0 (decimal (n div 10)) = n div 10"
      by simp
    with False show ?thesis
      by (subst decimal.simps) (simp add: digit_char)
  qed
qed

lemma read_decimal_decimal: "read_decimal (decimal n) = Some n"
  by (simp add: read_decimal_def decimal_digits decimal_foldl)

subsection \<open>The exchange\<close>

text \<open>When every collaborator succeeds, the outcome is decided by the decoded envelope.\<close>

lemma GetNextPage_decoded:
  assumes "scrollId s \<noteq> []"
    and "NewRequest (client s) ''POST'' (nextPageUrls pkg s) = Inr req0"
    and "c_Do (client s) (SetBodyString pkg req0 (scrollId s)) (remote w) = (Inr res, net)"
    and "checkResponse pkg res = None"
    and "Decode pkg res = Inr sr"
  shows "fst (GetNextPage pkg s w) = (if lastPage (Some sr) then Inl EOS else Inr sr)"
  using assms by (simp add: GetNextPage_def Let_def emit_def)

lemma GetFirstPage_decoded:
  assumes "NewRequest (client s) ''POST'' (firstPageUrls pkg s) = Inr req0"
    and "c_Do (client s) (SetBodyJson pkg req0 (firstPageBody s)) (remote w) = (Inr res, net)"
    and "checkResponse pkg res = None"
    and "Decode pkg res = Inr sr"
  shows "fst (GetFirstPage pkg s w) = Inr sr"
  using assms by (simp add: GetFirstPage_def Let_def emit_def)

lemma lastPage_Some:
  "lastPage (Some sr) \<longleftrightarrow>
     SearchResult.Hits sr = None \<or>
     (\<exists>hs. SearchResult.Hits sr = Some hs \<and> (SearchHits.Hits hs = [] \<or> TotalHits hs = 0))"
  by (simp add: lastPage_def split: option.split)

text \<open>\<^verbatim>\<open>GetFirstPage\<close> has no error of its own: an error it returns was made by a collaborator.\<close>

lemma GetFirstPage_no_EOS:
  assumes "\<And>m u. NewRequest (client s) m u \<noteq> Inl EOS"
    and "\<And>req n. fst (c_Do (client s) req n) \<noteq> Inl EOS"
    and "\<And>res. checkResponse pkg res \<noteq> Some EOS"
    and "\<And>res. Decode pkg res \<noteq> Inl EOS"
  shows "fst (GetFirstPage pkg s w) \<noteq> Inl EOS"
proof -
  let ?u = "firstPageUrls pkg s"
  show ?thesis
  proof (cases "NewRequest (client s) ''POST'' ?u")
    case (Inl e)
    with assms(1) [of "''POST''" ?u] show ?thesis
      by (simp add: GetFirstPage_def Let_def)
  next
    case (Inr req0)
    let ?req = "SetBodyJson pkg req0 (firstPageBody s)"
    obtain r net where d: "c_Do (client s) ?req (remote w) = (r, net)"
      by (cases "c_Do (client s) ?req (remote w)")
    from assms(2) [of ?req "remote w"] d have r: "r \<noteq> Inl EOS" by simp
    show ?thesis
    proof (cases r)
      case (Inl e)
      with r Inr d show ?thesis
        by (simp add: GetFirstPage_def Let_def emit_def)
    next
      case res: (Inr res)
      show ?thesis
      proof (cases "checkResponse pkg res")
        case (Some e)
        with assms(3) [of res] res Inr d show ?thesis
          by (simp add: GetFirstPage_def Let_def emit_def)
      next
        case None
        with assms(4) [of res] res Inr d show ?thesis
          by (cases "Decode pkg res") (simp_all add: GetFirstPage_def Let_def emit_def)
      qed
    qed
  qed
qed

text \<open>What the two operations record first, and what \<^verbatim>\<open>GetFirstPage\<close> sends.\<close>

lemma first_event_GetFirstPage:
  "\<exists>rest. events (snd (GetFirstPage pkg s w)) =
      events w @ NewRequest_call ''POST'' (firstPageUrls pkg s) # rest"
  by (simp add: GetFirstPage_def Let_def emit_def split: prod.split sum.split option.split)

lemma first_event_GetNextPage:
  "scrollId s \<noteq> [] \<Longrightarrow> \<exists>rest. events (snd (GetNextPage pkg s w)) =
      events w @ NewRequest_call ''POST'' (nextPageUrls pkg s) # rest"
  by (simp add: GetNextPage_def Let_def emit_def split: prod.split sum.split option.split)

lemma GetFirstPage_sends_body:
  assumes "NewRequest (client s) ''POST'' (firstPageUrls pkg s) = Inr req0"
  shows "Do_call (SetBodyJson pkg req0 (firstPageBody s)) \<in> set (events (snd (GetFirstPage pkg s w)))"
  using assms
  by (simp add: GetFirstPage_def Let_def emit_def split: prod.split sum.split option.split)

text \<open>What each operation requests and sends, in full.\<close>

lemma requested_append: "requested (es @ fs) = requested es @ requested fs"
  by (induction es rule: requested.induct) simp_all

lemma sent_append: "sent (es @ fs) = sent es @ sent fs"
  by (induction es rule: sent.induct) simp_all

lemma requested_GetFirstPage:
  "requested (events (snd (GetFirstPage pkg s w))) =
     requested (events w) @ [(''POST'', firstPageUrls pkg s)]"
  by (simp add: GetFirstPage_def Let_def emit_def requested_append
      split: prod.split sum.split option.split)

lemma requested_GetNextPage:
  "requested (events (snd (GetNextPage pkg s w))) =
     requested (events w) @ (if scrollId s = [] then [] else [(''POST'', nextPageUrls pkg s)])"
  by (simp add: GetNextPage_def Let_def emit_def requested_append
      split: prod.split sum.split option.split)

lemma sent_GetFirstPage:
  "sent (events (snd (GetFirstPage pkg s w))) =
     sent (events w) @
       (case NewRequest (client s) ''POST'' (firstPageUrls pkg s) of
          Inl err \<Rightarrow> []
        | Inr req0 \<Rightarrow> [SetBodyJson pkg req0 (firstPageBody s)])"
  by (simp add: GetFirstPage_def Let_def emit_def sent_append
      split: prod.split sum.split option.split)

lemma sent_GetNextPage:
  "sent (events (snd (GetNextPage pkg s w))) =
     sent (events w) @
       (if scrollId s = [] then []
        else case NewRequest (client s) ''POST'' (nextPageUrls pkg s) of
               Inl err \<Rightarrow> []
             | Inr req0 \<Rightarrow> [SetBodyString pkg req0 (scrollId s)])"
  by (simp add: GetNextPage_def Let_def emit_def sent_append
      split: prod.split sum.split option.split)

text \<open>The example exchange, evaluated once for the instances below.\<close>

lemma example_NewRequest:
  "NewRequest (client (ScrollId sid (example_service reply))) m u =
     Inr \<lparr>req_method = m, req_url = u, req_body = NoBody\<rparr>"
  by (simp add: example_defs)

lemma example_c_Do: "c_Do (client (ScrollId sid (example_service reply))) req n = (Inr reply, Suc n)"
  by (simp add: example_defs)

lemma example_checkResponse: "checkResponse example_package res = None"
  by (simp add: example_defs)

lemma example_Decode: "Decode example_package res = Inr res"
  by (simp add: example_defs)

section \<open>The claims\<close>

subsection \<open>C1: the path when no collection and no category is named\<close>

text \<open>
  C1 says that with no target collection and no target category \<^verbatim>\<open>GetFirstPage\<close> builds the
  path \<open>/_search\<close>, with no doubled separator. The code starts from \<open>/\<close>, skips both
  segments, and appends \<open>/_search\<close>: whatever the rest of the configuration is, the path it
  builds is \<open>//_search\<close>, which is not the path of the claim, and the URL passed to
  \<^verbatim>\<open>NewRequest\<close> begins with it.
\<close>

theorem firstPagePath_no_targets:
  "firstPagePath pkg (s\<lparr>indices := [], types := []\<rparr>) = ''//_search'' \<and>
   firstPagePath pkg (s\<lparr>indices := [], types := []\<rparr>) \<noteq> ''/_search'' \<and>
   firstPageUrls pkg (s\<lparr>indices := [], types := []\<rparr>) =
     ''//_search?'' @ Encode pkg (firstPageParams pkg (s\<lparr>indices := [], types := []\<rparr>))"
  by (simp add: firstPageUrls_eq) (simp add: firstPagePath_def)

subsection \<open>C2: the end of the stream\<close>



subsection \<open>C3: no cursor handle\<close>

text \<open>
  C3: with an empty \<^verbatim>\<open>scrollId\<close>, \<^verbatim>\<open>GetNextPage\<close> returns \<^verbatim>\<open>ErrNoScrollId\<close> and leaves the world
  as it found it: no call of \<^verbatim>\<open>NewRequest\<close> and no call of \<^verbatim>\<open>Do\<close> is recorded, and the state
  of the transport is untouched.
\<close>

theorem GetNextPage_missing_cursor:
  assumes "scrollId s = []"
  shows "GetNextPage pkg s w = (Inl ErrNoScrollId, w)"
  using assms by (simp add: GetNextPage_def)

theorem GetNextPage_missing_cursor_witness:
  "scrollId (example_service page_of_three) = [] \<and>
   GetNextPage example_package (example_service page_of_three) example_world
     = (Inl ErrNoScrollId, example_world)"
proof -
  have h: "scrollId (example_service page_of_three) = []"
    by (simp add: example_defs)
  from h GetNextPage_missing_cursor [OF h] show ?thesis
    by blast
qed

subsection \<open>C4: a page with hits is returned as it is\<close>

text \<open>
  C4 as written (every decoded envelope with one or more hits is returned unchanged) fails for
  an envelope whose hits sequence holds a record while its total-hits counter is zero: the
  last-page test of line 260 holds, and \<^verbatim>\<open>GetNextPage\<close> returns \<^verbatim>\<open>EOS\<close>.
\<close>

theorem GetNextPage_total_zero_counterexample:
  "Decode example_package page_total_zero = Inr page_total_zero \<and>
   SearchResult.Hits page_total_zero = Some \<lparr>TotalHits = 0, Hits = [''d1'']\<rparr> \<and>
   fst (GetNextPage example_package (ScrollId ''abc'' (example_service page_total_zero)) example_world)
     = Inl EOS \<and>
   fst (GetNextPage example_package (ScrollId ''abc'' (example_service page_total_zero)) example_world)
     \<noteq> Inr page_total_zero"
  by (simp add: GetNextPage_def example_defs Let_def emit_def lastPage_def nextPageUrls_def)

text \<open>
  C4, amended: when the continuation exchange succeeds up to and including the decoding of an
  envelope whose hits container is present, whose hits sequence is not empty and whose
  total-hits counter is not zero, \<^verbatim>\<open>GetNextPage\<close> returns that very envelope.
\<close>

theorem GetNextPage_returns_page:
  assumes "scrollId s \<noteq> []"
    and "NewRequest (client s) ''POST'' (nextPageUrls pkg s) = Inr req0"
    and "c_Do (client s) (SetBodyString pkg req0 (scrollId s)) (remote w) = (Inr res, net)"
    and "checkResponse pkg res = None"
    and "Decode pkg res = Inr sr"
    and "SearchResult.Hits sr = Some hs"
    and "SearchHits.Hits hs \<noteq> []"
    and "TotalHits hs \<noteq> 0"
  shows "fst (GetNextPage pkg s w) = Inr sr"
proof -
  from assms(6-8) have "\<not> lastPage (Some sr)"
    by (simp add: lastPage_Some)
  with GetNextPage_decoded [OF assms(1-5)] show ?thesis
    by simp
qed

theorem GetNextPage_returns_page_witness:
  "SearchResult.Hits page_of_three = Some \<lparr>TotalHits = 3, Hits = [''d1'', ''d2'', ''d3'']\<rparr> \<and>
   fst (GetNextPage example_package (ScrollId ''abc'' (example_service page_of_three)) example_world)
     = Inr page_of_three"
proof -
  let ?s = "ScrollId ''abc'' (example_service page_of_three)"
  let ?hs = "\<lparr>TotalHits = 3, Hits = [''d1'', ''d2'', ''d3'']\<rparr>"
  have h1: "scrollId ?s \<noteq> []"
    by (simp add: example_defs)
  have h2: "c_Do (client ?s)
      (SetBodyString example_package \<lparr>req_method = ''POST'', req_url = nextPageUrls example_package ?s,
         req_body = NoBody\<rparr> (scrollId ?s)) (remote example_world) = (Inr page_of_three, Suc 0)"
    by (simp add: example_c_Do example_world_def)
  have h6: "SearchResult.Hits page_of_three = Some ?hs"
    by (simp add: page_of_three_def)
  have h7: "SearchHits.Hits ?hs \<noteq> []" by simp
  have h8: "TotalHits ?hs \<noteq> 0" by simp
  from h6 GetNextPage_returns_page
    [OF h1 example_NewRequest h2 example_checkResponse example_Decode h6 h7 h8]
  show ?thesis by blast
qed

subsection \<open>C5: the body of the first request and the default query\<close>

text \<open>
  C5: a fresh service holds the match-all query. The body of the first-page request has the
  serialized query under the key \<open>query\<close> when a query is held and no such key when none
  is, and it has no other key. It is this body that is set on the request handed to
  \<^verbatim>\<open>Do\<close>, whenever the request could be built.
\<close>

theorem GetFirstPage_body:
  "query (NewScrollService pkg c) = Some (NewMatchAllQuery pkg) \<and>
   firstPageBody s ''query'' = map_option Source (query s) \<and>
   dom (firstPageBody s) \<subseteq> {''query''} \<and>
   (NewRequest (client s) ''POST'' (firstPageUrls pkg' s) = Inr req0 \<longrightarrow>
      Do_call (SetBodyJson pkg' req0 (firstPageBody s)) \<in> set (events (snd (GetFirstPage pkg' s w))))"
proof -
  have "query (NewScrollService pkg c) = Some (NewMatchAllQuery pkg)"
    by (simp add: NewScrollService_def)
  moreover have "firstPageBody s ''query'' = map_option Source (query s)"
    by (simp add: firstPageBody_def Let_def split: option.split)
  moreover have "dom (firstPageBody s) \<subseteq> {''query''}"
    by (simp add: firstPageBody_def Let_def split: option.split)
  moreover have "NewRequest (client s) ''POST'' (firstPageUrls pkg' s) = Inr req0 \<longrightarrow>
      Do_call (SetBodyJson pkg' req0 (firstPageBody s)) \<in> set (events (snd (GetFirstPage pkg' s w)))"
    by (simp add: GetFirstPage_sends_body)
  ultimately show ?thesis by blast
qed

theorem GetFirstPage_body_witness:
  "firstPageBody (example_service page_of_three) ''query'' = Some ''match_all'' \<and>
   firstPageBody (Query None (example_service page_of_three)) ''query'' = None \<and>
   Do_call \<lparr>req_method = ''POST'',
            req_url = ''/logs/_search?search_type=scan&scroll=1m&size=50'',
            req_body = JsonBody (firstPageBody (example_service page_of_three))\<rparr>
     \<in> set (events (snd (GetFirstPage example_package (example_service page_of_three) example_world)))"
proof -
  let ?s = "example_service page_of_three"
  let ?req0 = "\<lparr>req_method = ''POST'', req_url = firstPageUrls example_package ?s, req_body = NoBody\<rparr>"
  have u: "firstPageUrls example_package ?s = ''/logs/_search?search_type=scan&scroll=1m&size=50''"
    by (simp add: firstPageUrls_def firstPagePath_def firstPageParams_def example_defs
        Sprintf_d_def decimal.simps)
  have h: "NewRequest (client ?s) ''POST'' (firstPageUrls example_package ?s) = Inr ?req0"
    by (simp add: example_defs)
  have q1: "query ?s = Some (QueryObject ''match_all'')"
    by (simp add: example_defs)
  have q2: "query (Query None ?s) = None"
    by (simp add: Query_def)
  have set_body: "SetBodyJson example_package ?req0 b = ?req0\<lparr>req_body := JsonBody b\<rparr>" for b
    by (simp add: example_package_def)
  from GetFirstPage_body [of example_package "example_client page_of_three" ?s example_package ?req0 example_world]
    GetFirstPage_body [of example_package "example_client page_of_three" "Query None ?s" example_package ?req0 example_world]
    h q1 q2 u set_body
  show ?thesis by simp
qed

subsection \<open>C6: the scroll parameter\<close>

text \<open>
  C6: \<^verbatim>\<open>GetFirstPage\<close> calls \<^verbatim>\<open>NewRequest\<close> once, with \<open>POST\<close> and the path followed by \<open>?\<close>
  and its encoded parameters, and hands to \<^verbatim>\<open>Do\<close> the request so built (with its body set),
  if it could be built; \<^verbatim>\<open>GetNextPage\<close>, when it has a cursor handle, does the same with
  \<open>/_search/scroll?\<close> and its own encoded parameters, and requests nothing when it has none. In
  the parameters of both requests the key \<open>scroll\<close> has exactly one value, the default
  keep-alive constant when \<^verbatim>\<open>keepAlive\<close> is empty and the string \<^verbatim>\<open>keepAlive\<close> itself
  otherwise.
\<close>

theorem scroll_parameter:
  "Values_Get (firstPageParams pkg s) ''scroll''
     = Some [if keepAlive s = [] then defaultKeepAlive pkg else keepAlive s] \<and>
   Values_Get (nextPageParams pkg s) ''scroll''
     = Some [if keepAlive s = [] then defaultKeepAlive pkg else keepAlive s] \<and>
   requested (events (snd (GetFirstPage pkg s w)))
     = requested (events w) @
         [(''POST'', firstPagePath pkg s @ ''?'' @ Encode pkg (firstPageParams pkg s))] \<and>
   sent (events (snd (GetFirstPage pkg s w)))
     = sent (events w) @
         (case NewRequest (client s) ''POST''
                 (firstPagePath pkg s @ ''?'' @ Encode pkg (firstPageParams pkg s)) of
            Inl err \<Rightarrow> []
          | Inr req0 \<Rightarrow> [SetBodyJson pkg req0 (firstPageBody s)]) \<and>
   requested (events (snd (GetNextPage pkg s w)))
     = requested (events w) @
         (if scrollId s = [] then []
          else [(''POST'', ''/_search/scroll?'' @ Encode pkg (nextPageParams pkg s))]) \<and>
   sent (events (snd (GetNextPage pkg s w)))
     = sent (events w) @
         (if scrollId s = [] then []
          else case NewRequest (client s) ''POST''
                      (''/_search/scroll?'' @ Encode pkg (nextPageParams pkg s)) of
                 Inl err \<Rightarrow> []
               | Inr req0 \<Rightarrow> [SetBodyString pkg req0 (scrollId s)])"
proof -
  have "Values_Get (firstPageParams pkg s) ''scroll''
      = Some [if keepAlive s = [] then defaultKeepAlive pkg else keepAlive s]"
    by (simp add: firstPageParams_def Let_def Values_Get_def map_of_Values_Set split: option.split)
  moreover have "Values_Get (nextPageParams pkg s) ''scroll''
      = Some [if keepAlive s = [] then defaultKeepAlive pkg else keepAlive s]"
    by (simp add: nextPageParams_def Let_def Values_Get_def map_of_Values_Set)
  ultimately show ?thesis
    using requested_GetFirstPage [of pkg s w] sent_GetFirstPage [of pkg s w]
      requested_GetNextPage [of pkg s w] sent_GetNextPage [of pkg s w]
    unfolding firstPageUrls_eq nextPageUrls_eq by blast
qed

text \<open>
  The instance: the example service, whose keep-alive is \<open>1m\<close>, with the cursor handle
  \<open>abc\<close>; and a fresh service, for which the example's default \<open>5m\<close> is used.
\<close>

theorem scroll_parameter_witness:
  "Values_Get (firstPageParams example_package (ScrollId ''abc'' (example_service page_of_three)))
     ''scroll'' = Some [''1m''] \<and>
   Values_Get (nextPageParams example_package (ScrollId ''abc'' (example_service page_of_three)))
     ''scroll'' = Some [''1m''] \<and>
   Values_Get (firstPageParams example_package
     (NewScrollService example_package (example_client page_of_three))) ''scroll'' = Some [''5m''] \<and>
   requested (events (snd (GetNextPage example_package
     (ScrollId ''abc'' (example_service page_of_three)) example_world)))
     = [(''POST'', ''/_search/scroll?'' @ Encode example_package
          (nextPageParams example_package (ScrollId ''abc'' (example_service page_of_three))))]"
proof -
  let ?s = "ScrollId ''abc'' (example_service page_of_three)"
  let ?fresh = "NewScrollService example_package (example_client page_of_three)"
  have k: "keepAlive ?s = ''1m''" and k0: "keepAlive ?fresh = []"
    and d: "defaultKeepAlive example_package = ''5m''"
    and i: "scrollId ?s \<noteq> []"
    and e: "requested (events example_world) = []"
    by (simp_all add: example_defs)
  have a: "(if keepAlive ?s = [] then defaultKeepAlive example_package else keepAlive ?s) = ''1m''"
    by (simp add: k)
  have b: "(if keepAlive ?fresh = [] then defaultKeepAlive example_package else keepAlive ?fresh) = ''5m''"
    by (simp add: k0 d)
  from scroll_parameter [of example_package ?s example_world]
  have "Values_Get (firstPageParams example_package ?s) ''scroll'' = Some [''1m'']"
    and "Values_Get (nextPageParams example_package ?s) ''scroll'' = Some [''1m'']"
    and "requested (events (snd (GetNextPage example_package ?s example_world)))
      = requested (events example_world) @
          (if scrollId ?s = [] then []
           else [(''POST'', ''/_search/scroll?'' @ Encode example_package
                   (nextPageParams example_package ?s))])"
    unfolding a by blast+
  moreover from scroll_parameter [of example_package ?fresh example_world]
  have "Values_Get (firstPageParams example_package ?fresh) ''scroll'' = Some [''5m'']"
    unfolding b by blast
  ultimately show ?thesis
    by (simp only: e i if_False append_Nil simp_thms)
qed

subsection \<open>C7: the size parameter\<close>

text \<open>
  C7: the parameters of the first-page request have the key \<open>size\<close> exactly when a page
  size is set and positive, its single value being the page size printed in decimal (a string
  of digits that reads back as the number printed); the parameters of the continuation request
  never have the key. These are the parameters on the wire: \<^verbatim>\<open>GetFirstPage\<close> calls
  \<^verbatim>\<open>NewRequest\<close> once, with the path followed by \<open>?\<close> and the encoded first-page parameters;
  \<^verbatim>\<open>GetNextPage\<close> calls it once, with \<open>/_search/scroll?\<close> and the encoded continuation
  parameters, when it has a cursor handle and not at all when it has none; and the body it sets
  on the request it hands to \<^verbatim>\<open>Do\<close> is the cursor handle alone.
\<close>

theorem size_parameter:
  "Values_Get (firstPageParams pkg s) ''size''
     = (case size_ptr s of
          None \<Rightarrow> None
        | Some n \<Rightarrow> if 0 < n then Some [Sprintf_d n] else None) \<and>
   read_decimal (Sprintf_d (int k)) = Some k \<and>
   Values_Get (nextPageParams pkg s) ''size'' = None \<and>
   requested (events (snd (GetFirstPage pkg s w)))
     = requested (events w) @
         [(''POST'', firstPagePath pkg s @ ''?'' @ Encode pkg (firstPageParams pkg s))] \<and>
   requested (events (snd (GetNextPage pkg s w)))
     = requested (events w) @
         (if scrollId s = [] then []
          else [(''POST'', ''/_search/scroll?'' @ Encode pkg (nextPageParams pkg s))]) \<and>
   sent (events (snd (GetNextPage pkg s w)))
     = sent (events w) @
         (if scrollId s = [] then []
          else case NewRequest (client s) ''POST''
                      (''/_search/scroll?'' @ Encode pkg (nextPageParams pkg s)) of
                 Inl err \<Rightarrow> []
               | Inr req0 \<Rightarrow> [SetBodyString pkg req0 (scrollId s)])"
proof -
  have "Values_Get (firstPageParams pkg s) ''size''
      = (case size_ptr s of None \<Rightarrow> None | Some n \<Rightarrow> if 0 < n then Some [Sprintf_d n] else None)"
    by (simp add: firstPageParams_def Let_def Values_Get_def map_of_Values_Set split: option.split)
  moreover have "read_decimal (Sprintf_d (int k)) = Some k"
    by (simp add: Sprintf_d_def read_decimal_decimal)
  moreover have "Values_Get (nextPageParams pkg s) ''size'' = None"
    by (simp add: nextPageParams_def Let_def Values_Get_def map_of_Values_Set)
  ultimately show ?thesis
    using requested_GetFirstPage [of pkg s w] requested_GetNextPage [of pkg s w]
      sent_GetNextPage [of pkg s w]
    unfolding firstPageUrls_eq nextPageUrls_eq by blast
qed

text \<open>
  The instance: a page size of 50, of 0, and none; and the one request of the first page of the
  example service.
\<close>

theorem size_parameter_witness:
  "Values_Get (firstPageParams example_package (example_service page_of_three)) ''size''
     = Some [''50''] \<and>
   Values_Get (firstPageParams example_package (Size 0 (example_service page_of_three))) ''size''
     = None \<and>
   Values_Get (firstPageParams example_package
     (NewScrollService example_package (example_client page_of_three))) ''size'' = None \<and>
   read_decimal ''50'' = Some 50 \<and>
   requested (events (snd (GetFirstPage example_package (example_service page_of_three) example_world)))
     = [(''POST'', firstPagePath example_package (example_service page_of_three) @ ''?'' @
          Encode example_package (firstPageParams example_package (example_service page_of_three)))]"
proof -
  let ?s = "example_service page_of_three"
  let ?fresh = "NewScrollService example_package (example_client page_of_three)"
  have z: "size_ptr ?s = Some 50" and z1: "size_ptr (Size 0 ?s) = Some 0"
    and z0: "size_ptr ?fresh = None"
    and e: "requested (events example_world) = []"
    by (simp_all add: example_defs)
  have p: "Sprintf_d 50 = ''50''"
    by (simp add: Sprintf_d_def decimal.simps)
  from size_parameter [of example_package ?s 50 example_world]
  have "Values_Get (firstPageParams example_package ?s) ''size'' = Some [''50'']"
    and "read_decimal ''50'' = Some 50"
    and "requested (events (snd (GetFirstPage example_package ?s example_world)))
      = [(''POST'', firstPagePath example_package ?s @ ''?'' @
           Encode example_package (firstPageParams example_package ?s))]"
    by (simp_all add: z p e)
  moreover from size_parameter [of example_package "Size 0 ?s" 0 example_world]
  have "Values_Get (firstPageParams example_package (Size 0 ?s)) ''size'' = None"
    by (simp add: z1)
  moreover from size_parameter [of example_package ?fresh 0 example_world]
  have "Values_Get (firstPageParams example_package ?fresh) ''size'' = None"
    by (simp add: z0)
  ultimately show ?thesis
    by blast
qed

subsection \<open>C8: the dispatch\<close>

text \<open>
  C8: \<^verbatim>\<open>Do\<close> is \<^verbatim>\<open>GetFirstPage\<close> when \<^verbatim>\<open>scrollId\<close> is empty and \<^verbatim>\<open>GetNextPage\<close> otherwise, result and
  effects included. Which of the two ran shows in the first thing recorded: the first-page URL
  is requested in the one case, the continuation URL in the other.
\<close>

theorem Do_dispatch:
  "Do pkg s w = (if scrollId s = [] then GetFirstPage pkg s w else GetNextPage pkg s w) \<and>
   (\<exists>rest. events (snd (Do pkg s w)) =
      events w @ NewRequest_call ''POST''
        (if scrollId s = [] then firstPageUrls pkg s else nextPageUrls pkg s) # rest)"
proof (cases "scrollId s = []")
  case True
  with first_event_GetFirstPage [of pkg s w] show ?thesis
    by (simp add: Do_def)
next
  case False
  with first_event_GetNextPage [of s pkg w] show ?thesis
    by (simp add: Do_def)
qed

subsection \<open>C9: the names in the path\<close>

text \<open>
  C9: for every configuration the path is \<open>/\<close>, then (if a collection is named) the cleaned
  collection names joined by commas, then (if a category is named) \<open>/\<close> and the cleaned
  category names joined by commas, then \<open>/_search\<close>; the names stand in the order of the two
  lists, which is the order in which \<^verbatim>\<open>Index\<close> and \<^verbatim>\<open>Type\<close> inserted them. It is this path,
  followed by \<open>?\<close> and the encoded parameters, that \<^verbatim>\<open>GetFirstPage\<close> requests. A set of
  characters that the path-cleaning function never lets through, and that does not hold the
  comma, has no member in either of the two joined segments: of such characters the path has
  only those of its fixed parts.
\<close>

theorem firstPagePath_joined:
  "firstPagePath pkg s =
     ''/'' @ (if indices s = [] then [] else Join (map (cleanPathString pkg) (indices s)) '','') @
     (if types s = [] then [] else ''/'' @ Join (map (cleanPathString pkg) (types s)) '','') @
     ''/_search'' \<and>
   requested (events (snd (GetFirstPage pkg s w)))
     = requested (events w) @
         [(''POST'', firstPagePath pkg s @ ''?'' @ Encode pkg (firstPageParams pkg s))] \<and>
   indices (fold Type tys (fold Index ixs s0)) = indices s0 @ ixs \<and>
   types (fold Type tys (fold Index ixs s0)) = types s0 @ tys \<and>
   ((\<forall>name. set (cleanPathString pkg name) \<inter> special = {}) \<and> CHR '','' \<notin> special \<longrightarrow>
      set (Join (map (cleanPathString pkg) (indices s)) '','') \<inter> special = {} \<and>
      set (Join (map (cleanPathString pkg) (types s)) '','') \<inter> special = {})"
proof -
  have "indices (fold Type tys (fold Index ixs s0)) = indices s0 @ ixs"
    by (simp add: indices_fold_Type indices_fold_Index)
  moreover have "types (fold Type tys (fold Index ixs s0)) = types s0 @ tys"
    by (simp add: types_fold_Type types_fold_Index)
  moreover have "set (Join (map (cleanPathString pkg) names) '','') \<inter> special = {}"
    if "\<forall>name. set (cleanPathString pkg name) \<inter> special = {}" and "CHR '','' \<notin> special"
    for names
    by (rule Join_avoids) (use that in auto)
  ultimately show ?thesis
    using firstPagePath_eq [of pkg s] requested_GetFirstPage [of pkg s w]
    unfolding firstPageUrls_eq by blast
qed

text \<open>
  The instances: two collections and two categories, one name with a slash in it; and one
  collection with no category, as in the spec's scenario. The example's path cleaning removes
  slashes, so the slash is the special character here: the first path has the three slashes of
  its fixed parts and none inside a segment.
\<close>

theorem firstPagePath_joined_witness:
  "firstPagePath example_package
     (fold Type [''t1'', ''t2''] (fold Index [''a/b'', ''c'']
        (NewScrollService example_package (example_client page_of_three))))
     = ''/ab,c/t1,t2/_search'' \<and>
   set (Join (map (cleanPathString example_package) [''a/b'', ''c'']) '','') \<inter> {CHR ''/''} = {} \<and>
   firstPagePath example_package (example_service page_of_three) = ''/logs/_search'' \<and>
   requested (events (snd (GetFirstPage example_package (example_service page_of_three) example_world)))
     = [(''POST'', ''/logs/_search'' @ ''?'' @
          Encode example_package (firstPageParams example_package (example_service page_of_three)))]"
proof -
  let ?fresh = "NewScrollService example_package (example_client page_of_three)"
  let ?s = "fold Type [''t1'', ''t2''] (fold Index [''a/b'', ''c''] ?fresh)"
  let ?l = "example_service page_of_three"
  have i: "indices ?s = [''a/b'', ''c'']"
    by (simp add: example_defs)
  have t: "types ?s = [''t1'', ''t2'']"
    by (simp add: example_defs)
  have il: "indices ?l = [''logs'']" and tl: "types ?l = []"
    and e: "requested (events example_world) = []"
    by (simp_all add: example_defs)
  have c: "cleanPathString example_package = filter (\<lambda>c. c \<noteq> CHR ''/'')"
    by (simp add: example_package_def)
  have h3: "\<forall>name. set (cleanPathString example_package name) \<inter> {CHR ''/''} = {}"
    by (simp add: c)
  have h4: "CHR '','' \<notin> {CHR ''/''}"
    by simp
  note inst = firstPagePath_joined [of example_package ?s example_world "[]" "[]" ?fresh "{CHR ''/''}"]
  from inst have "firstPagePath example_package ?s =
      ''/'' @ (if indices ?s = [] then []
               else Join (map (cleanPathString example_package) (indices ?s)) '','') @
      (if types ?s = [] then []
       else ''/'' @ Join (map (cleanPathString example_package) (types ?s)) '','') @ ''/_search''"
    by blast
  then have p1: "firstPagePath example_package ?s = ''/ab,c/t1,t2/_search''"
    unfolding i t c by simp
  from inst h3 h4
  have "set (Join (map (cleanPathString example_package) (indices ?s)) '','') \<inter> {CHR ''/''} = {}"
    by blast
  then have seg: "set (Join (map (cleanPathString example_package) [''a/b'', ''c'']) '','') \<inter> {CHR ''/''} = {}"
    unfolding i .
  note instl = firstPagePath_joined [of example_package ?l example_world "[]" "[]" ?fresh "{}"]
  from instl have "firstPagePath example_package ?l =
      ''/'' @ (if indices ?l = [] then []
               else Join (map (cleanPathString example_package) (indices ?l)) '','') @
      (if types ?l = [] then []
       else ''/'' @ Join (map (cleanPathString example_package) (types ?l)) '','') @ ''/_search''"
    by blast
  then have p2: "firstPagePath example_package ?l = ''/logs/_search''"
    unfolding il tl c by simp
  from instl have "requested (events (snd (GetFirstPage example_package ?l example_world)))
      = requested (events example_world) @
          [(''POST'', firstPagePath example_package ?l @ ''?'' @
             Encode example_package (firstPageParams example_package ?l))]"
    by blast
  then have r: "requested (events (snd (GetFirstPage example_package ?l example_world)))
      = [(''POST'', ''/logs/_search'' @ ''?'' @
           Encode example_package (firstPageParams example_package ?l))]"
    unfolding p2 e by simp
  from p1 seg p2 r show ?thesis
    by blast
qed

subsection \<open>C10: the first page is never the end of the stream\<close>

text \<open>
  C10: when the first-page exchange succeeds up to and including the decoding of an envelope,
  \<^verbatim>\<open>GetFirstPage\<close> returns that envelope, whatever its hits container, its hits sequence and
  its total-hits counter are; and provided no collaborator (request construction, transport,
  status check, decoding) returns \<^verbatim>\<open>EOS\<close> as its own error, \<^verbatim>\<open>GetFirstPage\<close> never returns
  \<^verbatim>\<open>EOS\<close>.
\<close>

theorem GetFirstPage_never_EOS:
  "(NewRequest (client s) ''POST'' (firstPageUrls pkg s) = Inr req0 \<and>
    c_Do (client s) (SetBodyJson pkg req0 (firstPageBody s)) (remote w) = (Inr res, net) \<and>
    checkResponse pkg res = None \<and> Decode pkg res = Inr sr
      \<longrightarrow> fst (GetFirstPage pkg s w) = Inr sr) \<and>
   ((\<forall>m u. NewRequest (client s) m u \<noteq> Inl EOS) \<and>
    (\<forall>req n. fst (c_Do (client s) req n) \<noteq> Inl EOS) \<and>
    (\<forall>r. checkResponse pkg r \<noteq> Some EOS) \<and>
    (\<forall>r. Decode pkg r \<noteq> Inl EOS)
      \<longrightarrow> fst (GetFirstPage pkg s w) \<noteq> Inl EOS)"
proof (intro conjI impI)
  assume "NewRequest (client s) ''POST'' (firstPageUrls pkg s) = Inr req0 \<and>
    c_Do (client s) (SetBodyJson pkg req0 (firstPageBody s)) (remote w) = (Inr res, net) \<and>
    checkResponse pkg res = None \<and> Decode pkg res = Inr sr"
  then show "fst (GetFirstPage pkg s w) = Inr sr"
    using GetFirstPage_decoded [of s pkg req0 w res net sr] by blast
next
  assume a: "(\<forall>m u. NewRequest (client s) m u \<noteq> Inl EOS) \<and>
    (\<forall>req n. fst (c_Do (client s) req n) \<noteq> Inl EOS) \<and>
    (\<forall>r. checkResponse pkg r \<noteq> Some EOS) \<and>
    (\<forall>r. Decode pkg r \<noteq> Inl EOS)"
  show "fst (GetFirstPage pkg s w) \<noteq> Inl EOS"
    by (rule GetFirstPage_no_EOS) (use a in simp_all)
qed

text \<open>
  The instance: a first page whose envelope has no hit and a total of zero, for which the
  last-page test of \<^verbatim>\<open>GetNextPage\<close> would hold.
\<close>

theorem GetFirstPage_never_EOS_witness:
  "lastPage (Some page_of_none) \<and>
   fst (GetFirstPage example_package (example_service page_of_none) example_world) = Inr page_of_none \<and>
   fst (GetFirstPage example_package (example_service page_of_none) example_world) \<noteq> Inl EOS"
proof -
  let ?s = "example_service page_of_none"
  let ?req0 = "\<lparr>req_method = ''POST'', req_url = firstPageUrls example_package ?s, req_body = NoBody\<rparr>"
  have last: "lastPage (Some page_of_none)"
    by (simp add: lastPage_def page_of_none_def)
  have h1: "NewRequest (client ?s) ''POST'' (firstPageUrls example_package ?s) = Inr ?req0"
    by (simp add: example_defs)
  have h2: "c_Do (client ?s) (SetBodyJson example_package ?req0 (firstPageBody ?s)) (remote example_world)
      = (Inr page_of_none, Suc 0)"
    by (simp add: example_defs)
  have n1: "\<forall>m u. NewRequest (client ?s) m u \<noteq> Inl EOS"
    by (simp add: example_defs)
  have n2: "\<forall>req n. fst (c_Do (client ?s) req n) \<noteq> Inl EOS"
    by (simp add: example_defs)
  have n3: "\<forall>r. checkResponse example_package r \<noteq> Some EOS"
    by (simp add: example_checkResponse)
  have n4: "\<forall>r. Decode example_package r \<noteq> Inl EOS"
    by (simp add: example_Decode)
  from GetFirstPage_never_EOS [of ?s example_package ?req0 example_world page_of_none "Suc 0" page_of_none]
    h1 h2 example_checkResponse example_Decode n1 n2 n3 n4 last
  show ?thesis by blast
qed

end
